theory Spec2Isabelle
  imports Main
begin

section \<open>Values, records and errors\<close>

text \<open>
  The values the program stores in a record: integers (the four ratings as the sliders
  produce them), text, and the missing-value marker of a data frame. A record is a Python
  dict, kept here as an association list in insertion order; the store
  \<^verbatim>\<open>st.session_state.logs\<close> is a list of such records.
\<close>

datatype pyval = PyInt int | PyStr string | PyNaN

type_synonym log = "(string \<times> pyval) list"

datatype error = KeyError | ValueError | TypeError | IndexError | APIError | OSError
  | EmptyDataError | ParserError | GSpreadException

datatype outcome = Rerun | Raised error

definition dict_get :: "log \<Rightarrow> string \<Rightarrow> pyval \<Rightarrow> pyval" where
  "dict_get l k d = (case map_of l k of None \<Rightarrow> d | Some v \<Rightarrow> v)"

definition dict_item :: "log \<Rightarrow> string \<Rightarrow> error + pyval" where
  "dict_item l k = (case map_of l k of None \<Rightarrow> Inl KeyError | Some v \<Rightarrow> Inr v)"

definition truthy :: "pyval \<Rightarrow> bool" where
  "truthy v = (case v of PyInt n \<Rightarrow> n \<noteq> 0 | PyStr s \<Rightarrow> s \<noteq> [] | PyNaN \<Rightarrow> True)"

definition py_or :: "pyval \<Rightarrow> pyval \<Rightarrow> pyval" where
  "py_or a b = (if truthy a then a else b)"

subsection \<open>Numeric text\<close>

text \<open>
  The numbers of the model are the integers. \<open>int_literal\<close> is the integer part of the
  numeric grammar that \<^verbatim>\<open>float\<close>, \<^verbatim>\<open>pandas.to_numeric\<close>, the type inference of
  \<^verbatim>\<open>pandas.read_csv\<close> and the sheet client's \<^verbatim>\<open>numericise\<close> share: an optional sign
  followed by one or more decimal digits. \<open>str_int\<close> is \<^verbatim>\<open>str\<close> on an integer.
\<close>

definition digit_val :: "char \<Rightarrow> nat option" where
  "digit_val c = (let n = (of_char c :: nat) in if 48 \<le> n \<and> n \<le> 57 then Some (n - 48) else None)"

fun digits_val :: "nat \<Rightarrow> string \<Rightarrow> nat option" where
  "digits_val acc [] = Some acc"
| "digits_val acc (c # cs) =
     (case digit_val c of None \<Rightarrow> None | Some d \<Rightarrow> digits_val (10 * acc + d) cs)"

definition int_literal :: "string \<Rightarrow> int option" where
  "int_literal s =
     (case s of
        [] \<Rightarrow> None
      | c # cs \<Rightarrow>
          if c = CHR ''-'' then (if cs = [] then None else map_option (\<lambda>n. - int n) (digits_val 0 cs))
          else if c = CHR ''+'' then (if cs = [] then None else map_option int (digits_val 0 cs))
          else map_option int (digits_val 0 s))"

definition digit_char :: "nat \<Rightarrow> char" where
  "digit_char d = char_of (48 + d)"

fun str_nat :: "nat \<Rightarrow> string" where
  "str_nat n = (if n < 10 then [digit_char n] else str_nat (n div 10) @ [digit_char (n mod 10)])"

definition str_int :: "int \<Rightarrow> string" where
  "str_int i = (if i < 0 then CHR ''-'' # str_nat (nat (- i)) else str_nat (nat i))"

definition py_str :: "pyval \<Rightarrow> string" where
  "py_str v = (case v of PyInt n \<Rightarrow> str_int n | PyStr s \<Rightarrow> s | PyNaN \<Rightarrow> ''nan'')"

definition py_float :: "pyval \<Rightarrow> error + pyval" where
  "py_float v =
     (case v of
        PyInt n \<Rightarrow> Inr (PyInt n)
      | PyStr s \<Rightarrow> (case int_literal s of None \<Rightarrow> Inl ValueError | Some n \<Rightarrow> Inr (PyInt n))
      | PyNaN \<Rightarrow> Inr PyNaN)"


subsection \<open>Data frames\<close>

text \<open>
  A data frame is held by column, as the library holds it: the column names in order, each
  with its cells, and the number of rows. \<open>DataFrame\<close> builds one from a list of dicts:
  the columns are the keys in order of first appearance, and a key a dict does not have
  gives the missing-value cell.
\<close>

record dataframe =
  columns :: "(string \<times> pyval list) list"
  nrows :: nat

fun uniq_acc :: "string list \<Rightarrow> string list \<Rightarrow> string list" where
  "uniq_acc seen [] = seen"
| "uniq_acc seen (k # ks) =
     (if k \<in> set seen then uniq_acc seen ks else uniq_acc (seen @ [k]) ks)"

definition DataFrame :: "log list \<Rightarrow> dataframe" where
  "DataFrame ls =
     \<lparr>columns = map (\<lambda>k. (k, map (\<lambda>l. dict_get l k PyNaN) ls))
                    (uniq_acc [] (concat (map (map fst) ls))),
      nrows = length ls\<rparr>"

definition fillna_cells :: "pyval \<Rightarrow> pyval list \<Rightarrow> pyval list" where
  "fillna_cells v xs = map (\<lambda>x. if x = PyNaN then v else x) xs"

definition fillna :: "pyval \<Rightarrow> dataframe \<Rightarrow> dataframe" where
  "fillna v df = df\<lparr>columns := map (\<lambda>(k, xs). (k, fillna_cells v xs)) (columns df)\<rparr>"

definition to_dict_records :: "dataframe \<Rightarrow> log list" where
  "to_dict_records df = map (\<lambda>j. map (\<lambda>(k, xs). (k, xs ! j)) (columns df)) [0..<nrows df]"

definition to_numeric :: "pyval list \<Rightarrow> pyval list" where
  \<comment> \<open>\<^verbatim>\<open>pd.to_numeric(column, errors='coerce')\<close>\<close>
  "to_numeric xs =
     map (\<lambda>v. case v of
                 PyInt n \<Rightarrow> PyInt n
               | PyStr s \<Rightarrow> (case int_literal s of None \<Rightarrow> PyNaN | Some n \<Rightarrow> PyInt n)
               | PyNaN \<Rightarrow> PyNaN) xs"

subsection \<open>The backup file\<close>

text \<open>
  The backup file is kept as the table of its fields: the header line, then one line per
  row; a line without fields is a blank line. Quoting, the byte-order mark and line ends
  are the library's and are not modelled. Writing turns every cell into text, so the file
  does not say whether a cell was a number or a text; reading decides that again for each
  column as a whole. Which fields the reader converts to a number or another value that
  is not a text is the library's grammar: the reader takes it as the parameter \<open>rd\<close>
  (\<open>None\<close>: the field stays a text). \<open>read_int\<close> is its integer part, used where a
  run needs a concrete reader. The reader skips blank lines, takes the first line left as
  the header with its names as written, and when the first data line has more fields than
  the header it takes the leading extra fields as the index, which is not part of the
  records.
\<close>

definition csv_text :: "pyval \<Rightarrow> string" where
  "csv_text v = (case v of PyInt n \<Rightarrow> str_int n | PyStr s \<Rightarrow> s | PyNaN \<Rightarrow> [])"

definition to_csv :: "dataframe \<Rightarrow> string list list" where
  "to_csv df =
     map fst (columns df) #
     map (\<lambda>j. map (\<lambda>(k, xs). csv_text (xs ! j)) (columns df)) [0..<nrows df]"

definition na_values :: "string list" where
  "na_values =
     [[], ''#N/A'', ''#N/A N/A'', ''#NA'', ''-1.#IND'', ''-1.#QNAN'', ''-NaN'', ''-nan'',
      ''1.#IND'', ''1.#QNAN'', ''<NA>'', ''N/A'', ''NA'', ''NULL'', ''NaN'', ''None'',
      ''n/a'', ''nan'', ''null'']"

definition is_na :: "string \<Rightarrow> bool" where
  "is_na c = (c \<in> set na_values)"

definition read_int :: "string \<Rightarrow> pyval option" where
  "read_int c = map_option PyInt (int_literal c)"

definition infer_column :: "(string \<Rightarrow> pyval option) \<Rightarrow> string list \<Rightarrow> pyval list" where
  "infer_column rd cells =
     (if list_all (\<lambda>c. is_na c \<or> rd c \<noteq> None) cells
      then map (\<lambda>c. if is_na c then PyNaN
                     else (case rd c of None \<Rightarrow> PyNaN | Some v \<Rightarrow> v)) cells
      else map (\<lambda>c. if is_na c then PyNaN else PyStr c) cells)"

definition field :: "string list \<Rightarrow> nat \<Rightarrow> string" where
  "field r i = (if i < length r then r ! i else [])"

definition read_csv ::
  "(string \<Rightarrow> pyval option) \<Rightarrow> string list list \<Rightarrow> error + dataframe" where
  "read_csv rd tbl =
     (case filter (\<lambda>r. r \<noteq> []) tbl of
        [] \<Rightarrow> Inl EmptyDataError
      | hdr # rows \<Rightarrow>
          (let width = (case rows of [] \<Rightarrow> length hdr | r # rs \<Rightarrow> max (length hdr) (length r));
               lead = width - length hdr
           in if list_ex (\<lambda>r. width < length r) rows then Inl ParserError
              else Inr \<lparr>columns =
                          map (\<lambda>i. (hdr ! i,
                                     infer_column rd (map (\<lambda>r. field r (lead + i)) rows)))
                              [0..<length hdr],
                        nrows = length rows\<rparr>))"

section \<open>The remote worksheet and the session\<close>

text \<open>
  Everything the script reads and writes outside its own variables is one state: the
  record store of the session, the rows of the remote worksheet as the text of their
  cells, the backup file (absent, or its table), the photo files on disk, and whether the
  disk accepts the write of the backup file. \<open>faults\<close> lists, for the calls to the sheet
  service still to come, whether each one raises (\<open>True\<close>); past its end every call goes
  through. \<open>success_shown\<close> records that \<^verbatim>\<open>st.success\<close> was called.
\<close>

record world =
  logs :: "log list"
  sheet :: "string list list"
  faults :: "bool list"
  csv_file :: "string list list option"
  files :: "string set"
  disk_ok :: bool
  success_shown :: bool

definition api_call :: "world \<Rightarrow> bool \<times> world" where
  "api_call w = (case faults w of [] \<Rightarrow> (True, w) | f # fs \<Rightarrow> (\<not> f, w\<lparr>faults := fs\<rparr>))"

definition get_all_values :: "world \<Rightarrow> (error + string list list) \<times> world" where
  \<comment> \<open>for a worksheet without values the client returns one empty row, not the empty list\<close>
  "get_all_values w =
     (let (ok, w') = api_call w
      in if ok then (Inr (if sheet w' = [] then [[]] else sheet w'), w')
         else (Inl APIError, w'))"

definition append_row :: "pyval list \<Rightarrow> world \<Rightarrow> (error + unit) \<times> world" where
  "append_row vals w =
     (let (ok, w') = api_call w
      in if ok then (Inr (), w'\<lparr>sheet := sheet w' @ [map py_str vals]\<rparr>)
         else (Inl APIError, w'))"

definition delete_rows :: "nat \<Rightarrow> world \<Rightarrow> (error + unit) \<times> world" where
  \<comment> \<open>rows are addressed from 1; an index past the filled rows removes a blank row\<close>
  "delete_rows k w =
     (let (ok, w') = api_call w
      in if ok \<and> 0 < k
         then (Inr (), w'\<lparr>sheet := take (k - 1) (sheet w') @ drop k (sheet w')\<rparr>)
         else (Inl APIError, w'))"

definition numericise :: "string \<Rightarrow> pyval" where
  "numericise c = (case int_literal c of None \<Rightarrow> PyStr c | Some n \<Rightarrow> PyInt n)"

definition get_all_records :: "world \<Rightarrow> (error + log list) \<times> world" where
  \<comment> \<open>row 1 is the header; the client refuses a header with a repeated name\<close>
  "get_all_records w =
     (let (ok, w') = api_call w
      in if \<not> ok then (Inl APIError, w')
         else (case sheet w' of
                 [] \<Rightarrow> (Inr [], w')
               | hdr # rows \<Rightarrow>
                   if \<not> distinct hdr then (Inl GSpreadException, w')
                   else (Inr (map (\<lambda>r. zip hdr (map numericise r)) rows), w')))"

definition load_from_gsheet :: "world \<Rightarrow> log list \<times> world" where
  "load_from_gsheet w =
     (case get_all_records w of
        (Inl e, w') \<Rightarrow> ([], w')
      | (Inr records, w') \<Rightarrow>
          (if records \<noteq> []
           then (to_dict_records (fillna (PyStr []) (DataFrame records)), w')
           else ([], w')))"

definition headers :: "string list" where
  "headers =
     [''Location'', ''Hard_Y_Authenticity'', ''Hard_X_Affect'',
      ''Soft_Y_Correctness'', ''Soft_X_Affect'',
      ''Comment'', ''Image_Path'', ''Timestamp'']"

definition save_to_gsheet :: "log \<Rightarrow> world \<Rightarrow> bool \<times> world" where
  "save_to_gsheet log_entry w =
     (case get_all_values w of
        (Inl e, w1) \<Rightarrow> (False, w1)
      | (Inr existing, w1) \<Rightarrow>
          (case (if existing = [] then append_row (map PyStr headers) w1 else (Inr (), w1)) of
             (Inl e, w2) \<Rightarrow> (False, w2)
           | (Inr u, w2) \<Rightarrow>
               (let row =
                      [dict_get log_entry ''Location'' (PyStr []),
                       dict_get log_entry ''Hard_Y_Authenticity'' (PyInt 0),
                       dict_get log_entry ''Hard_X_Affect'' (PyInt 0),
                       dict_get log_entry ''Soft_Y_Correctness'' (PyInt 0),
                       dict_get log_entry ''Soft_X_Affect'' (PyInt 0),
                       dict_get log_entry ''Comment'' (PyStr []),
                       dict_get log_entry ''Image_Path'' (PyStr []),
                       dict_get log_entry ''Timestamp'' (PyStr [])]
                in (case append_row row w2 of
                      (Inl e, w3) \<Rightarrow> (False, w3)
                    | (Inr u', w3) \<Rightarrow> (True, w3)))))"

definition delete_from_gsheet :: "nat \<Rightarrow> world \<Rightarrow> bool \<times> world" where
  "delete_from_gsheet row_index w =
     (case delete_rows (row_index + 2) w of
        (Inl e, w') \<Rightarrow> (False, w')
      | (Inr u, w') \<Rightarrow> (True, w'))"

subsection \<open>Start of a script run\<close>

text \<open>
  \<open>hydrate\<close> is the initialisation of the store when the session has none yet;
  \<open>refresh\<close> is the reload that follows on every run when the sheet is connected. Only
  the empty-file error of the reader is caught.
\<close>

definition load_backup :: "(string \<Rightarrow> pyval option) \<Rightarrow> world \<Rightarrow> error + world" where
  \<comment> \<open>the branches for the backup file: present, or absent\<close>
  "load_backup rd w =
     (case csv_file w of
        Some tbl \<Rightarrow>
          (case read_csv rd tbl of
             Inl e \<Rightarrow> if e = EmptyDataError then Inr (w\<lparr>logs := []\<rparr>) else Inl e
           | Inr df_load \<Rightarrow>
               Inr (w\<lparr>logs := to_dict_records (fillna (PyStr []) df_load)\<rparr>))
      | None \<Rightarrow> Inr (w\<lparr>logs := []\<rparr>))"

definition hydrate :: "bool \<Rightarrow> world \<Rightarrow> error + world" where
  "hydrate GSHEET_ENABLED w =
     (if GSHEET_ENABLED
      then (let (ls, w') = load_from_gsheet w in Inr (w'\<lparr>logs := ls\<rparr>))
      else load_backup read_int w)"

definition refresh :: "bool \<Rightarrow> world \<Rightarrow> world" where
  "refresh GSHEET_ENABLED w =
     (if GSHEET_ENABLED
      then (let (ls, w') = load_from_gsheet w in w'\<lparr>logs := ls\<rparr>)
      else w)"

definition script_top :: "bool \<Rightarrow> bool \<Rightarrow> world \<Rightarrow> error + world" where
  \<comment> \<open>\<open>fresh\<close>: \<^verbatim>\<open>'logs' not in st.session_state\<close>\<close>
  "script_top GSHEET_ENABLED fresh w =
     (case (if fresh then hydrate GSHEET_ENABLED w else Inr w) of
        Inl e \<Rightarrow> Inl e
      | Inr w1 \<Rightarrow> Inr (refresh GSHEET_ENABLED w1))"

subsection \<open>The entry form\<close>

text \<open>
  What the widgets and the clock give to one press of the record button:
  \<open>uploaded_ext\<close> is the extension of the uploaded file's name when a photo was chosen,
  \<open>file_stamp\<close> and \<open>timestamp\<close> are the two formatted readings of the clock.
\<close>

record form =
  location :: string
  h_y_val :: int
  h_x_val :: int
  s_y_val :: int
  s_x_val :: int
  uploaded_ext :: "string option"
  comment :: string
  file_stamp :: string
  timestamp :: string

definition new_log :: "form \<Rightarrow> string \<Rightarrow> log" where
  "new_log f saved_photo_path =
     [(''Location'', PyStr (location f)),
      (''Hard_Y_Authenticity'', PyInt (h_y_val f)),
      (''Hard_X_Affect'', PyInt (h_x_val f)),
      (''Soft_Y_Correctness'', PyInt (s_y_val f)),
      (''Soft_X_Affect'', PyInt (s_x_val f)),
      (''Comment'', PyStr (comment f)),
      (''Image_Path'', PyStr saved_photo_path),
      (''Timestamp'', PyStr (timestamp f))]"

definition photo_path :: "form \<Rightarrow> string" where
  "photo_path f =
     (case uploaded_ext f of
        None \<Rightarrow> []
      | Some file_extension \<Rightarrow> ''photos/'' @ file_stamp f @ file_extension)"

definition write_backup :: "world \<Rightarrow> world \<times> outcome" where
  \<comment> \<open>\<^verbatim>\<open>pd.DataFrame(st.session_state.logs).to_csv(...)\<close>, not inside any \<^verbatim>\<open>try\<close>\<close>
  "write_backup w =
     (if disk_ok w then (w\<lparr>csv_file := Some (to_csv (DataFrame (logs w)))\<rparr>, Rerun)
      else (w, Raised OSError))"

definition submit_handler :: "bool \<Rightarrow> form \<Rightarrow> world \<Rightarrow> world \<times> outcome" where
  "submit_handler GSHEET_ENABLED f w =
     (let saved_photo_path = photo_path f;
          w1 = (if uploaded_ext f = None then w
                else w\<lparr>files := insert saved_photo_path (files w)\<rparr>);
          w2 = w1\<lparr>logs := logs w1 @ [new_log f saved_photo_path]\<rparr>;
          w3 = (if GSHEET_ENABLED then snd (save_to_gsheet (new_log f saved_photo_path) w2)
                else w2)
      in (case write_backup w3 of
            (w4, Raised e) \<Rightarrow> (w4, Raised e)
          | (w4, Rerun) \<Rightarrow> (w4\<lparr>success_shown := True\<rparr>, Rerun)))"

subsection \<open>The delete button\<close>

definition photo_exists :: "pyval \<Rightarrow> world \<Rightarrow> bool" where
  \<comment> \<open>\<^verbatim>\<open>img_path and isinstance(img_path, str) and os.path.exists(img_path)\<close>\<close>
  "photo_exists img_path w =
     (case img_path of PyStr p \<Rightarrow> p \<noteq> [] \<and> p \<in> files w | PyInt n \<Rightarrow> False | PyNaN \<Rightarrow> False)"

definition os_remove :: "pyval \<Rightarrow> world \<Rightarrow> world" where
  "os_remove img_path w =
     (case img_path of PyStr p \<Rightarrow> w\<lparr>files := files w - {p}\<rparr> | PyInt n \<Rightarrow> w | PyNaN \<Rightarrow> w)"

definition delete_handler :: "bool \<Rightarrow> nat \<Rightarrow> world \<Rightarrow> world \<times> outcome" where
  "delete_handler GSHEET_ENABLED i w =
     (if length (logs w) \<le> i then (w, Raised IndexError)
      else
        (let img_path = dict_get (logs w ! i) ''Image_Path'' (PyStr []);
             w1 = (if photo_exists img_path w then os_remove img_path w else w);
             w2 = (if GSHEET_ENABLED then snd (delete_from_gsheet i w1) else w1);
             w3 = w2\<lparr>logs := take i (logs w2) @ drop (Suc i) (logs w2)\<rparr>
         in write_backup w3))"

section \<open>The views\<close>

subsection \<open>Coordinate registry and map\<close>

text \<open>
  The keys of the registry are Japanese place names; a string here is the list of the
  bytes of its UTF-8 form. Coordinates are in thousandths of a degree.
\<close>

definition american_village :: string where
  "american_village =
     [CHR 0xE3, CHR 0x82, CHR 0xA2, CHR 0xE3, CHR 0x83, CHR 0xA1, CHR 0xE3, CHR 0x83,
      CHR 0xAA, CHR 0xE3, CHR 0x82, CHR 0xAB, CHR 0xE3, CHR 0x83, CHR 0xB3, CHR 0xE3,
      CHR 0x83, CHR 0x93, CHR 0xE3, CHR 0x83, CHR 0xAC, CHR 0xE3, CHR 0x83, CHR 0x83,
      CHR 0xE3, CHR 0x82, CHR 0xB8, CHR 0x20, CHR 0x28, CHR 0xE5, CHR 0x8C, CHR 0x97,
      CHR 0xE8, CHR 0xB0, CHR 0xB7, CHR 0x29]"

definition pizza_house :: string where
  "pizza_house =
     [CHR 0xE3, CHR 0x83, CHR 0x94, CHR 0xE3, CHR 0x82, CHR 0xB6, CHR 0xE3, CHR 0x83,
      CHR 0x8F, CHR 0xE3, CHR 0x82, CHR 0xA6, CHR 0xE3, CHR 0x82, CHR 0xB9, CHR 0x20,
      CHR 0x28, CHR 0xE5, CHR 0xA4, CHR 0x95, CHR 0xE9, CHR 0xA3, CHR 0x9F, CHR 0x29]"

definition murasaki_mura :: string where
  "murasaki_mura =
     [CHR 0xE3, CHR 0x82, CHR 0x80, CHR 0xE3, CHR 0x82, CHR 0x89, CHR 0xE5, CHR 0x92,
      CHR 0xB2, CHR 0xE3, CHR 0x82, CHR 0x80, CHR 0xE3, CHR 0x82, CHR 0x89, CHR 0x20,
      CHR 0x28, CHR 0xE8, CHR 0xAA, CHR 0xAD, CHR 0xE8, CHR 0xB0, CHR 0xB7, CHR 0x29]"

definition hotel_alivila :: string where
  "hotel_alivila =
     [CHR 0xE3, CHR 0x83, CHR 0x9B, CHR 0xE3, CHR 0x83, CHR 0x86, CHR 0xE3, CHR 0x83,
      CHR 0xAB, CHR 0xE6, CHR 0x97, CHR 0xA5, CHR 0xE8, CHR 0x88, CHR 0xAA, CHR 0xE3,
      CHR 0x82, CHR 0xA2, CHR 0xE3, CHR 0x83, CHR 0xAA, CHR 0xE3, CHR 0x83, CHR 0x93,
      CHR 0xE3, CHR 0x83, CHR 0xA9, CHR 0x20, CHR 0x28, CHR 0xE3, CHR 0x83, CHR 0xA9,
      CHR 0xE3, CHR 0x83, CHR 0xB3, CHR 0xE3, CHR 0x83, CHR 0x81, CHR 0x29]"

definition zakimi_castle :: string where
  "zakimi_castle =
     [CHR 0xE5, CHR 0xBA, CHR 0xA7, CHR 0xE5, CHR 0x96, CHR 0x9C, CHR 0xE5, CHR 0x91,
      CHR 0xB3, CHR 0xE5, CHR 0x9F, CHR 0x8E, CHR 0xE8, CHR 0xB7, CHR 0xA1, CHR 0x20,
      CHR 0x28, CHR 0xE8, CHR 0xAA, CHR 0xAD, CHR 0xE8, CHR 0xB0, CHR 0xB7, CHR 0x29]"

definition sakima_museum :: string where
  "sakima_museum =
     [CHR 0xE4, CHR 0xBD, CHR 0x90, CHR 0xE5, CHR 0x96, CHR 0x9C, CHR 0xE7, CHR 0x9C,
      CHR 0x9E, CHR 0xE7, CHR 0xBE, CHR 0x8E, CHR 0xE8, CHR 0xA1, CHR 0x93, CHR 0xE9,
      CHR 0xA4, CHR 0xA8, CHR 0x20, CHR 0x28, CHR 0xE5, CHR 0xAE, CHR 0x9C, CHR 0xE9,
      CHR 0x87, CHR 0x8E, CHR 0xE6, CHR 0xB9, CHR 0xBE, CHR 0x29]"

definition naha_port :: string where
  "naha_port =
     [CHR 0xE9, CHR 0x82, CHR 0xA3, CHR 0xE8, CHR 0xA6, CHR 0x87, CHR 0xE6, CHR 0xB8,
      CHR 0xAF, CHR 0xE3, CHR 0x83, CHR 0xBB, CHR 0xE3, CHR 0x83, CHR 0x95, CHR 0xE3,
      CHR 0x82, CHR 0xA7, CHR 0xE3, CHR 0x83, CHR 0xAA, CHR 0xE3, CHR 0x83, CHR 0xBC,
      CHR 0x20, CHR 0x28, CHR 0xE6, CHR 0xB5, CHR 0xB7, CHR 0xE4, CHR 0xB8, CHR 0x8A,
      CHR 0x29]"

definition LAT_LON :: "(string \<times> (int \<times> int)) list" where
  "LAT_LON =
     [(american_village, (26316, 127756)),
      (pizza_house, (26262, 127733)),
      (murasaki_mura, (26406, 127718)),
      (hotel_alivila, (26413, 127715)),
      (zakimi_castle, (26408, 127742)),
      (sakima_museum, (26273, 127754)),
      (naha_port, (26216, 127674))]"

datatype color = Blue | Red

record marker =
  position :: "int \<times> int"
  popup :: string
  tooltip :: pyval
  icon_color :: color

definition registry_lookup :: "pyval \<Rightarrow> (int \<times> int) option" where
  \<comment> \<open>\<^verbatim>\<open>log['Location'] in LAT_LON\<close>, then \<^verbatim>\<open>LAT_LON[log['Location']]\<close>\<close>
  "registry_lookup loc =
     (case loc of PyStr s \<Rightarrow> map_of LAT_LON s | PyInt n \<Rightarrow> None | PyNaN \<Rightarrow> None)"

definition py_ge0 :: "pyval \<Rightarrow> error + bool" where
  \<comment> \<open>\<^verbatim>\<open>v >= 0\<close>: a text cannot be compared with a number\<close>
  "py_ge0 v =
     (case v of PyInt n \<Rightarrow> Inr (0 \<le> n) | PyStr s \<Rightarrow> Inl TypeError | PyNaN \<Rightarrow> Inr False)"

fun map_markers :: "log list \<Rightarrow> error + marker list" where
  "map_markers [] = Inr []"
| "map_markers (l # ls) =
     (case dict_item l ''Location'' of
        Inl e \<Rightarrow> Inl e
      | Inr loc \<Rightarrow>
          (case registry_lookup loc of
             None \<Rightarrow> map_markers ls
           | Some latlon \<Rightarrow>
               (case py_ge0 (dict_get l ''Hard_Y_Authenticity'' (PyInt 0)) of
                  Inl e \<Rightarrow> Inl e
                | Inr nonneg \<Rightarrow>
                    (case map_markers ls of
                       Inl e \<Rightarrow> Inl e
                     | Inr ms \<Rightarrow>
                         Inr (\<lparr>position = latlon, popup = py_str loc, tooltip = loc,
                               icon_color = (if nonneg then Blue else Red)\<rparr> # ms)))))"

subsection \<open>Charts\<close>

definition rating_cols :: "string list" where
  "rating_cols =
     [''Hard_Y_Authenticity'', ''Hard_X_Affect'', ''Soft_Y_Correctness'', ''Soft_X_Affect'']"

definition coerce_col :: "string \<Rightarrow> dataframe \<Rightarrow> dataframe" where
  \<comment> \<open>\<^verbatim>\<open>if col in df.columns: df[col] = pd.to_numeric(df[col], errors='coerce').fillna(0)\<close>\<close>
  "coerce_col col df =
     (if col \<in> fst ` set (columns df)
      then df\<lparr>columns :=
                  map (\<lambda>(k, xs). if k = col then (k, fillna_cells (PyInt 0) (to_numeric xs))
                                  else (k, xs)) (columns df)\<rparr>
      else df)"

definition chart_frame :: "log list \<Rightarrow> dataframe" where
  "chart_frame ls = fold coerce_col rating_cols (DataFrame ls)"

definition px_scatter ::
  "dataframe \<Rightarrow> string \<Rightarrow> string \<Rightarrow> string \<Rightarrow> error + (pyval \<times> pyval \<times> pyval) list" where
  \<comment> \<open>one point (x, y, text) per row; a column the frame does not have is refused\<close>
  "px_scatter df x y txt =
     (case map_of (columns df) x of
        None \<Rightarrow> Inl ValueError
      | Some xs \<Rightarrow>
          (case map_of (columns df) y of
             None \<Rightarrow> Inl ValueError
           | Some ys \<Rightarrow>
               (case map_of (columns df) txt of
                  None \<Rightarrow> Inl ValueError
                | Some ts \<Rightarrow> Inr (zip xs (zip ys ts)))))"

definition hard_scatter :: "log list \<Rightarrow> error + (pyval \<times> pyval \<times> pyval) list" where
  "hard_scatter ls =
     px_scatter (chart_frame ls) ''Hard_X_Affect'' ''Hard_Y_Authenticity'' ''Location''"

definition soft_scatter :: "log list \<Rightarrow> error + (pyval \<times> pyval \<times> pyval) list" where
  "soft_scatter ls =
     px_scatter (chart_frame ls) ''Soft_X_Affect'' ''Soft_Y_Correctness'' ''Location''"

record arrow =
  hard_point :: "pyval \<times> pyval"
  soft_point :: "pyval \<times> pyval"
  hovertext :: string

definition rating_float :: "log \<Rightarrow> string \<Rightarrow> error + pyval" where
  \<comment> \<open>\<^verbatim>\<open>float(log.get(key, 0) or 0)\<close>\<close>
  "rating_float l key = py_float (py_or (dict_get l key (PyInt 0)) (PyInt 0))"

definition vector_entry :: "log \<Rightarrow> error + arrow" where
  "vector_entry l =
     (case rating_float l ''Hard_X_Affect'' of Inl e \<Rightarrow> Inl e | Inr h_x \<Rightarrow>
      case rating_float l ''Hard_Y_Authenticity'' of Inl e \<Rightarrow> Inl e | Inr h_y \<Rightarrow>
      case rating_float l ''Soft_X_Affect'' of Inl e \<Rightarrow> Inl e | Inr s_x \<Rightarrow>
      case rating_float l ''Soft_Y_Correctness'' of Inl e \<Rightarrow> Inl e | Inr s_y \<Rightarrow>
      case dict_item l ''Location'' of Inl e \<Rightarrow> Inl e | Inr loc \<Rightarrow>
        Inr \<lparr>hard_point = (h_x, h_y), soft_point = (s_x, s_y), hovertext = py_str loc\<rparr>)"

fun vector_view :: "log list \<Rightarrow> error + arrow list" where
  "vector_view [] = Inr []"
| "vector_view (l # ls) =
     (case vector_entry l of
        Inl e \<Rightarrow> Inl e
      | Inr a \<Rightarrow> (case vector_view ls of Inl e \<Rightarrow> Inl e | Inr as \<Rightarrow> Inr (a # as)))"

section \<open>Sample inputs\<close>

text \<open>A form as the sidebar gives it and an empty world, used to run the handlers.\<close>

definition sample_form :: form where
  "sample_form =
     \<lparr>location = zakimi_castle, h_y_val = 20, h_x_val = - 10, s_y_val = 30, s_x_val = 40,
      uploaded_ext = None, comment = ''quiet'', file_stamp = ''20240101_100000'',
      timestamp = ''2024-01-01 10:00:00''\<rparr>"

definition sample_world :: world where
  "sample_world =
     \<lparr>logs = [], sheet = [], faults = [], csv_file = None, files = {},
      disk_ok = True, success_shown = False\<rparr>"

text \<open>A world with two records, the first owning a photo, mirrored in the worksheet.\<close>

definition sample_photo_world :: world where
  "sample_photo_world =
     \<lparr>logs = [new_log sample_form ''photos/20240101_100000.jpg'', new_log sample_form []],
      sheet =
        [headers,
         [zakimi_castle, ''20'', ''-10'', ''30'', ''40'', ''quiet'',
          ''photos/20240101_100000.jpg'', ''2024-01-01 10:00:00''],
         [zakimi_castle, ''20'', ''-10'', ''30'', ''40'', ''quiet'', [],
          ''2024-01-01 10:00:00'']],
      faults = [], csv_file = None, files = {''photos/20240101_100000.jpg''},
      disk_ok = True, success_shown = False\<rparr>"

section \<open>Basic facts\<close>

declare str_nat.simps [simp del]








subsection \<open>The remote operations touch only the worksheet\<close>

lemma py_str_simps [simp]:
  "py_str (PyStr s) = s" "py_str (PyInt n) = str_int n"
  by (simp_all add: py_str_def)

lemma map_py_str_PyStr [simp]: "map (py_str \<circ> PyStr) xs = xs"
  by (induction xs) simp_all

lemma delete_from_gsheet_local:
  "logs (snd (delete_from_gsheet i w)) = logs w"
  "csv_file (snd (delete_from_gsheet i w)) = csv_file w"
  "files (snd (delete_from_gsheet i w)) = files w"
  "disk_ok (snd (delete_from_gsheet i w)) = disk_ok w"
  "success_shown (snd (delete_from_gsheet i w)) = success_shown w"
  by (simp_all add: delete_from_gsheet_def delete_rows_def api_call_def split: list.splits)

lemma save_to_gsheet_local:
  "logs (snd (save_to_gsheet l w)) = logs w"
  "csv_file (snd (save_to_gsheet l w)) = csv_file w"
  "files (snd (save_to_gsheet l w)) = files w"
  "disk_ok (snd (save_to_gsheet l w)) = disk_ok w"
  "success_shown (snd (save_to_gsheet l w)) = success_shown w"
  by (simp_all add: save_to_gsheet_def get_all_values_def append_row_def api_call_def Let_def
      split: list.splits)

lemma load_from_gsheet_local:
  "logs (snd (load_from_gsheet w)) = logs w"
  "csv_file (snd (load_from_gsheet w)) = csv_file w"
  "files (snd (load_from_gsheet w)) = files w"
  "disk_ok (snd (load_from_gsheet w)) = disk_ok w"
  "sheet (snd (load_from_gsheet w)) = sheet w"
  by (simp_all add: load_from_gsheet_def get_all_records_def api_call_def Let_def
      split: list.splits)

lemma delete_from_gsheet_fails:
  "faults w = True # fs \<Longrightarrow> delete_from_gsheet i w = (False, w\<lparr>faults := fs\<rparr>)"
  by (simp add: delete_from_gsheet_def delete_rows_def api_call_def)

lemma delete_from_gsheet_False_iff:
  "\<not> fst (delete_from_gsheet i w) \<longleftrightarrow> (\<exists>fs. faults w = True # fs)"
  by (auto simp add: delete_from_gsheet_def delete_rows_def api_call_def split: list.splits)

lemma delete_from_gsheet_False_sheet:
  "\<not> fst (delete_from_gsheet i w) \<Longrightarrow> sheet (snd (delete_from_gsheet i w)) = sheet w"
  by (auto simp add: delete_from_gsheet_def delete_rows_def api_call_def split: list.splits)


lemma save_to_gsheet_result:
  "fst (save_to_gsheet l w) = (True \<notin> set (take 2 (faults w)))"
  apply (cases "faults w")
   apply (simp add: save_to_gsheet_def get_all_values_def append_row_def api_call_def Let_def)
  subgoal for a fs
    apply (cases fs)
     apply (auto simp add: save_to_gsheet_def get_all_values_def append_row_def api_call_def
        Let_def numeral_2_eq_2)
    done
  done

subsection \<open>The submit handler\<close>






lemma submit_handler_disk_fails:
  "\<not> disk_ok w \<Longrightarrow> snd (submit_handler en f w) = Raised OSError"
  by (simp add: submit_handler_def write_backup_def Let_def save_to_gsheet_local)

subsection \<open>The delete handler\<close>

lemma delete_handler_logs:
  "i < length (logs w) \<Longrightarrow>
   logs (fst (delete_handler en i w)) = take i (logs w) @ drop (Suc i) (logs w)"
  by (simp add: delete_handler_def write_backup_def Let_def os_remove_def
      delete_from_gsheet_local split: pyval.splits)

lemma delete_handler_files:
  "i < length (logs w) \<Longrightarrow>
   files (fst (delete_handler en i w)) =
     (if photo_exists (dict_get (logs w ! i) ''Image_Path'' (PyStr [])) w
      then files (os_remove (dict_get (logs w ! i) ''Image_Path'' (PyStr [])) w)
      else files w)"
  by (simp add: delete_handler_def write_backup_def Let_def os_remove_def
      delete_from_gsheet_local split: pyval.splits)

lemma delete_handler_photo_gone:
  assumes "i < length (logs w)"
    and "map_of (logs w ! i) ''Image_Path'' = Some (PyStr p)"
    and "p \<noteq> []" and "p \<in> files w"
  shows "p \<notin> files (fst (delete_handler en i w))"
  using assms
  by (simp add: delete_handler_files dict_get_def photo_exists_def os_remove_def)

lemma delete_handler_backup:
  "i < length (logs w) \<Longrightarrow> disk_ok w \<Longrightarrow>
   csv_file (fst (delete_handler en i w)) =
     Some (to_csv (DataFrame (take i (logs w) @ drop (Suc i) (logs w)))) \<and>
   snd (delete_handler en i w) = Rerun"
  by (simp add: delete_handler_def write_backup_def Let_def os_remove_def
      delete_from_gsheet_local split: pyval.splits)

lemma delete_handler_disk_fails:
  "i < length (logs w) \<Longrightarrow> \<not> disk_ok w \<Longrightarrow> snd (delete_handler en i w) = Raised OSError"
  by (simp add: delete_handler_def write_backup_def Let_def os_remove_def
      delete_from_gsheet_local split: pyval.splits)

lemma delete_from_gsheet_depends:
  "sheet w' = sheet w \<Longrightarrow> faults w' = faults w \<Longrightarrow>
   fst (delete_from_gsheet i w') = fst (delete_from_gsheet i w) \<and>
   sheet (snd (delete_from_gsheet i w')) = sheet (snd (delete_from_gsheet i w)) \<and>
   faults (snd (delete_from_gsheet i w')) = faults (snd (delete_from_gsheet i w))"
  by (simp add: delete_from_gsheet_def delete_rows_def api_call_def split: list.splits)

lemma delete_handler_remote:
  "i < length (logs w) \<Longrightarrow>
   sheet (fst (delete_handler True i w)) = sheet (snd (delete_from_gsheet i w)) \<and>
   faults (fst (delete_handler True i w)) = faults (snd (delete_from_gsheet i w))"
  by (auto simp add: delete_handler_def write_backup_def Let_def os_remove_def
      split: pyval.splits
      intro!: delete_from_gsheet_depends [THEN conjunct2, THEN conjunct1]
        delete_from_gsheet_depends [THEN conjunct2, THEN conjunct2])

section \<open>Deleting a record\<close>

text \<open>
  Claim C4. For a store of length \<open>n\<close> and a position \<open>i < n\<close>, the delete handler
  leaves the store without the record at \<open>i\<close>: the records before \<open>i\<close> keep their
  positions, those after \<open>i\<close> move down by one, nothing else changes; and when the
  record's \<^verbatim>\<open>Image_Path\<close> is a non-empty text naming a file on disk, that file is gone
  afterwards. This holds with and without the sheet, whatever the remote call and the
  write of the backup file do.
\<close>

theorem C4_delete_removes_record_and_photo:
  assumes "i < length (logs w)"
  shows "logs (fst (delete_handler en i w)) = take i (logs w) @ drop (Suc i) (logs w) \<and>
    length (logs (fst (delete_handler en i w))) = length (logs w) - 1 \<and>
    (\<forall>j<i. logs (fst (delete_handler en i w)) ! j = logs w ! j) \<and>
    (\<forall>j. i \<le> j \<and> Suc j < length (logs w) \<longrightarrow>
         logs (fst (delete_handler en i w)) ! j = logs w ! Suc j) \<and>
    (\<forall>p. map_of (logs w ! i) ''Image_Path'' = Some (PyStr p) \<and> p \<noteq> [] \<and> p \<in> files w \<longrightarrow>
         p \<notin> files (fst (delete_handler en i w)))"
proof -
  let ?ls = "logs (fst (delete_handler en i w))"
  have eq: "?ls = take i (logs w) @ drop (Suc i) (logs w)"
    using assms by (rule delete_handler_logs)
  have len: "length ?ls = length (logs w) - 1"
    using assms by (simp add: eq)
  have before: "\<forall>j<i. ?ls ! j = logs w ! j"
    using assms by (simp add: eq nth_append)
  have after: "\<forall>j. i \<le> j \<and> Suc j < length (logs w) \<longrightarrow> ?ls ! j = logs w ! Suc j"
    using assms by (auto simp add: eq nth_append min_def)
  have photo: "\<forall>p. map_of (logs w ! i) ''Image_Path'' = Some (PyStr p) \<and> p \<noteq> [] \<and> p \<in> files w \<longrightarrow>
         p \<notin> files (fst (delete_handler en i w))"
    using assms delete_handler_photo_gone by blast
  from eq len before after photo show ?thesis by blast
qed

text \<open>
  Claim C10. The delete is not atomic with respect to the sheet. With the sheet connected
  and a disk that takes the backup file, the handler removes the photo, makes its one
  call to the sheet service, removes the record from the store and rewrites the backup
  file from the shortened store, whatever that call returned; when the remote delete
  returns \<open>False\<close> the worksheet is as before, so the record is still in the worksheet
  and no longer in the store, the backup file or the photo directory. The order of the
  four steps is the order of the statements of \<open>delete_handler\<close>.
\<close>

theorem C10_delete_not_atomic:
  assumes "i < length (logs w)" and "disk_ok w"
  shows "logs (fst (delete_handler True i w)) = take i (logs w) @ drop (Suc i) (logs w) \<and>
    csv_file (fst (delete_handler True i w)) =
      Some (to_csv (DataFrame (take i (logs w) @ drop (Suc i) (logs w)))) \<and>
    snd (delete_handler True i w) = Rerun \<and>
    (\<forall>p. map_of (logs w ! i) ''Image_Path'' = Some (PyStr p) \<and> p \<noteq> [] \<and> p \<in> files w \<longrightarrow>
         p \<notin> files (fst (delete_handler True i w))) \<and>
    faults (fst (delete_handler True i w)) = tl (faults w) \<and>
    (\<not> fst (delete_from_gsheet i w) \<longrightarrow> sheet (fst (delete_handler True i w)) = sheet w)"
proof -
  have att: "faults (fst (delete_handler True i w)) = tl (faults w)"
    using assms(1)
    by (simp add: delete_handler_remote delete_from_gsheet_def delete_rows_def api_call_def
        split: list.splits)
  have keep: "\<not> fst (delete_from_gsheet i w) \<longrightarrow> sheet (fst (delete_handler True i w)) = sheet w"
    using assms(1) by (simp add: delete_handler_remote delete_from_gsheet_False_sheet)
  from assms att keep show ?thesis
    using delete_handler_logs [of i w True] delete_handler_backup [of i w True]
      delete_handler_photo_gone [of i w _ True]
    by blast
qed


text \<open>Deleting the first of the two sample records, which owns a photo.\<close>

theorem C4_delete_removes_record_and_photo_witness:
  "0 < length (logs sample_photo_world) \<and>
   logs (fst (delete_handler True 0 sample_photo_world)) = [new_log sample_form []] \<and>
   ''photos/20240101_100000.jpg'' \<in> files sample_photo_world \<and>
   ''photos/20240101_100000.jpg'' \<notin> files (fst (delete_handler True 0 sample_photo_world))"
proof -
  have len: "0 < length (logs sample_photo_world)"
    by (simp add: sample_photo_world_def)
  have img: "map_of (logs sample_photo_world ! 0) ''Image_Path'' =
               Some (PyStr ''photos/20240101_100000.jpg'')"
    by (simp add: sample_photo_world_def new_log_def)
  have there: "''photos/20240101_100000.jpg'' \<in> files sample_photo_world"
    by (simp add: sample_photo_world_def)
  note inst = C4_delete_removes_record_and_photo [OF len, of True]
  from inst have "logs (fst (delete_handler True 0 sample_photo_world)) =
      take 0 (logs sample_photo_world) @ drop (Suc 0) (logs sample_photo_world)"
    by blast
  then have store: "logs (fst (delete_handler True 0 sample_photo_world)) = [new_log sample_form []]"
    by (simp add: sample_photo_world_def)
  from inst img there
  have "''photos/20240101_100000.jpg'' \<notin> files (fst (delete_handler True 0 sample_photo_world))"
    by blast
  with len store there show ?thesis by blast
qed

text \<open>The same delete with the sheet service unreachable.\<close>

theorem C10_delete_not_atomic_witness:
  "0 < length (logs (sample_photo_world\<lparr>faults := [True]\<rparr>)) \<and>
   disk_ok (sample_photo_world\<lparr>faults := [True]\<rparr>) \<and>
   \<not> fst (delete_from_gsheet 0 (sample_photo_world\<lparr>faults := [True]\<rparr>)) \<and>
   sheet (fst (delete_handler True 0 (sample_photo_world\<lparr>faults := [True]\<rparr>))) =
     sheet sample_photo_world \<and>
   logs (fst (delete_handler True 0 (sample_photo_world\<lparr>faults := [True]\<rparr>))) =
     [new_log sample_form []] \<and>
   ''photos/20240101_100000.jpg'' \<notin>
     files (fst (delete_handler True 0 (sample_photo_world\<lparr>faults := [True]\<rparr>)))"
proof -
  let ?w = "sample_photo_world\<lparr>faults := [True]\<rparr>"
  have len: "0 < length (logs ?w)"
    by (simp add: sample_photo_world_def)
  have disk: "disk_ok ?w"
    by (simp add: sample_photo_world_def)
  have down: "\<not> fst (delete_from_gsheet 0 ?w)"
    by (simp add: delete_from_gsheet_False_iff)
  have img: "map_of (logs ?w ! 0) ''Image_Path'' = Some (PyStr ''photos/20240101_100000.jpg'')"
    by (simp add: sample_photo_world_def new_log_def)
  have there: "''photos/20240101_100000.jpg'' \<in> files ?w"
    by (simp add: sample_photo_world_def)
  note inst = C10_delete_not_atomic [OF len disk]
  from inst down have "sheet (fst (delete_handler True 0 ?w)) = sheet ?w"
    by blast
  then have remote: "sheet (fst (delete_handler True 0 ?w)) = sheet sample_photo_world"
    by simp
  from inst have "logs (fst (delete_handler True 0 ?w)) =
      take 0 (logs ?w) @ drop (Suc 0) (logs ?w)"
    by blast
  then have store: "logs (fst (delete_handler True 0 ?w)) = [new_log sample_form []]"
    by (simp add: sample_photo_world_def)
  from inst img there
  have "''photos/20240101_100000.jpg'' \<notin> files (fst (delete_handler True 0 ?w))"
    by blast
  with len disk down remote store show ?thesis by blast
qed

section \<open>Failure of the persistence calls\<close>

lemma load_from_gsheet_fails:
  "faults w = True # fs \<Longrightarrow> load_from_gsheet w = ([], w\<lparr>faults := fs\<rparr>)"
  by (simp add: load_from_gsheet_def get_all_records_def api_call_def)

text \<open>
  Claim C2 as stated fails: the write of the backup file is outside every \<^verbatim>\<open>try\<close>, so
  on a disk that refuses it both the submit handler and the delete handler end with the
  error.
\<close>

theorem C2_backup_write_raises:
  "snd (submit_handler True sample_form (sample_world\<lparr>disk_ok := False\<rparr>)) = Raised OSError \<and>
   snd (delete_handler True 0 (sample_photo_world\<lparr>disk_ok := False\<rparr>)) = Raised OSError"
  by (simp add: submit_handler_disk_fails delete_handler_disk_fails sample_photo_world_def)

text \<open>
  Claim C2, amended. The three remote operations catch the errors of the sheet service:
  a load whose call raises returns the empty list, an append returns \<open>True\<close> exactly
  when neither of the two calls it makes raises and \<open>False\<close> otherwise, a delete
  whose call raises returns \<open>False\<close>. The write of the
  backup file is not guarded: when the disk refuses it, the submit handler and the delete
  handler end with the error.
\<close>

theorem C2_remote_degrades_backup_propagates:
  "(faults w = True # fs \<longrightarrow> load_from_gsheet w = ([], w\<lparr>faults := fs\<rparr>)) \<and>
   fst (save_to_gsheet l w) = (True \<notin> set (take 2 (faults w))) \<and>
   (faults w = True # fs \<longrightarrow> delete_from_gsheet i w = (False, w\<lparr>faults := fs\<rparr>)) \<and>
   (\<not> disk_ok w \<longrightarrow> snd (submit_handler en f w) = Raised OSError) \<and>
   (\<not> disk_ok w \<and> i < length (logs w) \<longrightarrow> snd (delete_handler en i w) = Raised OSError)"
  using load_from_gsheet_fails [of w fs] save_to_gsheet_result [of l w]
    delete_from_gsheet_fails [of w fs i] submit_handler_disk_fails [of w en f]
    delete_handler_disk_fails [of i w en]
  by blast

text \<open>All five cases on the sample world with an unreachable sheet and a refusing disk.\<close>

theorem C2_remote_degrades_backup_propagates_witness:
  "load_from_gsheet (sample_photo_world\<lparr>faults := [True], disk_ok := False\<rparr>) =
     ([], sample_photo_world\<lparr>faults := [], disk_ok := False\<rparr>) \<and>
   \<not> fst (save_to_gsheet (new_log sample_form [])
            (sample_photo_world\<lparr>faults := [True], disk_ok := False\<rparr>)) \<and>
   delete_from_gsheet 0 (sample_photo_world\<lparr>faults := [True], disk_ok := False\<rparr>) =
     (False, sample_photo_world\<lparr>faults := [], disk_ok := False\<rparr>) \<and>
   snd (submit_handler True sample_form
          (sample_photo_world\<lparr>faults := [True], disk_ok := False\<rparr>)) = Raised OSError \<and>
   snd (delete_handler True 0
          (sample_photo_world\<lparr>faults := [True], disk_ok := False\<rparr>)) = Raised OSError"
proof -
  let ?w = "sample_photo_world\<lparr>faults := [True], disk_ok := False\<rparr>"
  have f: "faults ?w = True # []" by simp
  have d: "\<not> disk_ok ?w" by simp
  have n: "0 < length (logs ?w)" by (simp add: sample_photo_world_def)
  have s: "sheet ?w \<noteq> []" by (simp add: sample_photo_world_def)
  note inst = C2_remote_degrades_backup_propagates
    [of ?w "[]" "new_log sample_form []" 0 True sample_form]
  from inst f have 1: "load_from_gsheet ?w = ([], ?w\<lparr>faults := []\<rparr>)" by blast
  from inst f s have 2: "\<not> fst (save_to_gsheet (new_log sample_form []) ?w)" by simp
  from inst f have 3: "delete_from_gsheet 0 ?w = (False, ?w\<lparr>faults := []\<rparr>)" by blast
  from inst d have 4: "snd (submit_handler True sample_form ?w) = Raised OSError" by blast
  from inst d n have 5: "snd (delete_handler True 0 ?w) = Raised OSError" by blast
  from 1 2 3 4 5 show ?thesis by simp
qed

section \<open>Charts and missing or non-numeric ratings\<close>

text \<open>
  What each chart path does with one rating. The vector view reads
  \<^verbatim>\<open>float(log.get(key, 0) or 0)\<close>: a missing key, an empty text and a number are fine,
  a non-empty text that is not a number raises. The scatter plots read the coerced frame,
  where such a text and a missing cell both become 0.
\<close>

lemma rating_float_missing:
  "map_of l k = None \<Longrightarrow> rating_float l k = Inr (PyInt 0)"
  by (simp add: rating_float_def dict_get_def py_or_def truthy_def py_float_def)

lemma rating_float_empty:
  "map_of l k = Some (PyStr []) \<Longrightarrow> rating_float l k = Inr (PyInt 0)"
  by (simp add: rating_float_def dict_get_def py_or_def truthy_def py_float_def)

lemma rating_float_int:
  "map_of l k = Some (PyInt n) \<Longrightarrow> rating_float l k = Inr (PyInt n)"
  by (simp add: rating_float_def dict_get_def py_or_def truthy_def py_float_def)

lemma rating_float_text:
  "map_of l k = Some (PyStr s) \<Longrightarrow> s \<noteq> [] \<Longrightarrow> int_literal s = None \<Longrightarrow>
   rating_float l k = Inl ValueError"
  by (simp add: rating_float_def dict_get_def py_or_def truthy_def py_float_def)

lemma coerced_cell_text:
  "int_literal s = None \<Longrightarrow> fillna_cells (PyInt 0) (to_numeric [PyStr s]) = [PyInt 0]"
  by (simp add: fillna_cells_def to_numeric_def)

lemma coerced_cell_missing:
  "fillna_cells (PyInt 0) (to_numeric [PyNaN]) = [PyInt 0]"
  by (simp add: fillna_cells_def to_numeric_def)

text \<open>
  Claim C1 says that a rating that fails numeric parsing is displayed as 0 on all three
  chart paths. On a store whose one record has the text \<open>abc\<close> as
  \<^verbatim>\<open>Soft_X_Affect\<close>, the two scatter plots show the record with 0 for that rating,
  and the vector view raises \<^verbatim>\<open>ValueError\<close> instead of drawing it.
\<close>

theorem C1_vector_view_raises_on_text_rating:
  "hard_scatter
     [[(''Location'', PyStr ''X''), (''Hard_Y_Authenticity'', PyInt 20),
       (''Hard_X_Affect'', PyInt (- 10)), (''Soft_Y_Correctness'', PyInt 30),
       (''Soft_X_Affect'', PyStr ''abc''), (''Comment'', PyStr []),
       (''Image_Path'', PyStr []), (''Timestamp'', PyStr ''2024-01-01 10:00:00'')]] =
     Inr [(PyInt (- 10), PyInt 20, PyStr ''X'')] \<and>
   soft_scatter
     [[(''Location'', PyStr ''X''), (''Hard_Y_Authenticity'', PyInt 20),
       (''Hard_X_Affect'', PyInt (- 10)), (''Soft_Y_Correctness'', PyInt 30),
       (''Soft_X_Affect'', PyStr ''abc''), (''Comment'', PyStr []),
       (''Image_Path'', PyStr []), (''Timestamp'', PyStr ''2024-01-01 10:00:00'')]] =
     Inr [(PyInt 0, PyInt 30, PyStr ''X'')] \<and>
   vector_view
     [[(''Location'', PyStr ''X''), (''Hard_Y_Authenticity'', PyInt 20),
       (''Hard_X_Affect'', PyInt (- 10)), (''Soft_Y_Correctness'', PyInt 30),
       (''Soft_X_Affect'', PyStr ''abc''), (''Comment'', PyStr []),
       (''Image_Path'', PyStr []), (''Timestamp'', PyStr ''2024-01-01 10:00:00'')]] =
     Inl ValueError"
  by code_simp

section \<open>The map\<close>

text \<open>
  On a store whose records all have a text as \<^verbatim>\<open>Location\<close> and an integer as
  \<^verbatim>\<open>Hard_Y_Authenticity\<close> (\<open>es\<close> lists these two fields record by record), the map
  has, in store order, exactly one marker for each record whose location is a key of the
  registry, placed at the registered coordinates, and none for the other records; the
  marker is blue when the rating is non-negative and red when it is negative.
\<close>

lemma map_markers_typed_store:
  assumes "list_all2 (\<lambda>l (s, n). map_of l ''Location'' = Some (PyStr s) \<and>
                        map_of l ''Hard_Y_Authenticity'' = Some (PyInt n)) ls es"
  shows "map_markers ls =
     Inr (List.map_filter
            (\<lambda>(s, n). case map_of LAT_LON s of
                         None \<Rightarrow> None
                       | Some latlon \<Rightarrow>
                           Some \<lparr>position = latlon, popup = s, tooltip = PyStr s,
                                 icon_color = (if 0 \<le> n then Blue else Red)\<rparr>) es)"
  using assms
proof (induction ls es rule: list_all2_induct)
  case Nil
  then show ?case by (simp add: List.map_filter_simps)
next
  case (Cons l ls e es)
  obtain s n where e: "e = (s, n)" by (cases e)
  with Cons.hyps have "map_of l ''Location'' = Some (PyStr s)"
    "map_of l ''Hard_Y_Authenticity'' = Some (PyInt n)" by simp_all
  with Cons.IH e show ?case
    by (simp add: List.map_filter_simps dict_item_def dict_get_def registry_lookup_def
        py_ge0_def split: option.splits)
qed

text \<open>Three records: a registry place rated -1, a freeform place, a registry place rated 0.\<close>

lemma map_markers_typed_store_example:
  "map_markers
     [new_log (sample_form\<lparr>h_y_val := - 1\<rparr>) [],
      new_log (sample_form\<lparr>location := ''Nameless gusuku''\<rparr>) [],
      new_log (sample_form\<lparr>location := pizza_house, h_y_val := 0\<rparr>) []] =
   Inr [\<lparr>position = (26408, 127742), popup = zakimi_castle, tooltip = PyStr zakimi_castle,
         icon_color = Red\<rparr>,
        \<lparr>position = (26262, 127733), popup = pizza_house, tooltip = PyStr pizza_house,
         icon_color = Blue\<rparr>]"
proof -
  have typed: "list_all2 (\<lambda>l (s, n). map_of l ''Location'' = Some (PyStr s) \<and>
                        map_of l ''Hard_Y_Authenticity'' = Some (PyInt n))
     [new_log (sample_form\<lparr>h_y_val := - 1\<rparr>) [],
      new_log (sample_form\<lparr>location := ''Nameless gusuku''\<rparr>) [],
      new_log (sample_form\<lparr>location := pizza_house, h_y_val := 0\<rparr>) []]
     [(zakimi_castle, - 1), (''Nameless gusuku'', 20), (pizza_house, 0)]"
    by (simp add: new_log_def sample_form_def)
  have reg: "map_of LAT_LON zakimi_castle = Some (26408, 127742)"
    "map_of LAT_LON ''Nameless gusuku'' = None"
    "map_of LAT_LON pizza_house = Some (26262, 127733)"
    by code_simp+
  show ?thesis
    using map_markers_typed_store [OF typed]
    by (simp add: List.map_filter_simps reg)
qed

text \<open>
  Claim C6 says that the map shows one marker for every record whose location is a key of
  the registry, coloured by the sign of its rating. For a record at a registry place whose
  \<^verbatim>\<open>Hard_Y_Authenticity\<close> is the empty text, as the loader returns a blank cell, the
  comparison with 0 raises \<^verbatim>\<open>TypeError\<close> and the map shows no marker at all, not
  even for the well-formed record that follows.
\<close>

theorem C6_blank_rating_on_registry_place_raises:
  "registry_lookup (PyStr zakimi_castle) = Some (26408, 127742) \<and>
   map_markers
     [[(''Location'', PyStr zakimi_castle), (''Hard_Y_Authenticity'', PyStr []),
       (''Hard_X_Affect'', PyInt 0), (''Soft_Y_Correctness'', PyInt 0),
       (''Soft_X_Affect'', PyInt 0), (''Comment'', PyStr []), (''Image_Path'', PyStr []),
       (''Timestamp'', PyStr ''2024-01-01 10:00:00'')],
      new_log sample_form []] = Inl TypeError \<and>
   rating_float
     [(''Location'', PyStr zakimi_castle), (''Hard_Y_Authenticity'', PyStr []),
       (''Hard_X_Affect'', PyInt 0), (''Soft_Y_Correctness'', PyInt 0),
       (''Soft_X_Affect'', PyInt 0), (''Comment'', PyStr []), (''Image_Path'', PyStr []),
       (''Timestamp'', PyStr ''2024-01-01 10:00:00'')] ''Hard_Y_Authenticity'' = Inr (PyInt 0)"
  by code_simp

section \<open>Data frames of records with the same keys\<close>

lemma uniq_acc_seen: "set ks \<subseteq> set seen \<Longrightarrow> uniq_acc seen ks = seen"
  by (induction ks) simp_all

lemma uniq_acc_fresh:
  "distinct (seen @ ks) \<Longrightarrow> uniq_acc seen (ks @ rest) = uniq_acc (seen @ ks) rest"
  by (induction ks arbitrary: seen) simp_all

lemma keys_uniform:
  assumes "ls \<noteq> []" and "\<forall>l\<in>set ls. map fst l = ks" and "distinct ks"
  shows "uniq_acc [] (concat (map (map fst) ls)) = ks"
proof -
  obtain l ls' where ls: "ls = l # ls'" using assms(1) by (cases ls) auto
  let ?rest = "concat (map (map fst) ls')"
  have "l \<in> set ls" by (simp add: ls)
  with assms(2) have hd: "map fst l = ks" by blast
  have tl: "map fst l' = ks" if "l' \<in> set ls'" for l'
  proof -
    from that have "l' \<in> set ls" by (simp add: ls)
    with assms(2) show ?thesis by blast
  qed
  have split: "concat (map (map fst) ls) = ks @ ?rest"
    by (simp add: ls hd)
  have sub: "set ?rest \<subseteq> set ks"
  proof
    fix k assume "k \<in> set ?rest"
    then obtain l' where "l' \<in> set ls'" and "k \<in> set (map fst l')" by auto
    with tl show "k \<in> set ks" by simp
  qed
  have "distinct ([] @ ks)" using assms(3) by simp
  then have "uniq_acc [] (ks @ ?rest) = uniq_acc ([] @ ks) ?rest"
    by (rule uniq_acc_fresh)
  also have "\<dots> = ks"
    using sub by (simp only: append_Nil uniq_acc_seen)
  finally show ?thesis by (simp only: split)
qed

lemma map_nth_upt: "map (\<lambda>j. f (xs ! j)) [0..<length xs] = map f xs"
  by (rule nth_equalityI) simp_all

lemma dict_get_row:
  "distinct (map fst l) \<Longrightarrow> map (\<lambda>k. (k, dict_get l k d)) (map fst l) = l"
proof (induction l)
  case Nil
  then show ?case by simp
next
  case (Cons kv l)
  obtain k v where kv: "kv = (k, v)" by (cases kv)
  from Cons.prems kv have "k \<notin> fst ` set l" "distinct (map fst l)" by auto
  then have "map (\<lambda>k'. (k', dict_get (kv # l) k' d)) (map fst l) =
             map (\<lambda>k'. (k', dict_get l k' d)) (map fst l)"
    using kv by (auto simp add: dict_get_def)
  with Cons.IH \<open>distinct (map fst l)\<close> kv show ?case
    by (simp add: dict_get_def)
qed

lemma columns_DataFrame_uniform:
  assumes "ls \<noteq> []" and "\<forall>l\<in>set ls. map fst l = ks" and "distinct ks"
  shows "columns (DataFrame ls) = map (\<lambda>k. (k, map (\<lambda>l. dict_get l k PyNaN) ls)) ks"
  using keys_uniform [OF assms] by (simp add: DataFrame_def)

lemma to_dict_records_columns:
  assumes "\<forall>l\<in>set ls. map fst l = ks" and "distinct ks"
  shows "to_dict_records
           \<lparr>columns = map (\<lambda>k. (k, map (\<lambda>l. dict_get l k PyNaN) ls)) ks,
            nrows = length ls\<rparr> = ls"
proof -
  have "to_dict_records
           \<lparr>columns = map (\<lambda>k. (k, map (\<lambda>l. dict_get l k PyNaN) ls)) ks,
            nrows = length ls\<rparr> =
        map (\<lambda>j. map (\<lambda>k. (k, dict_get (ls ! j) k PyNaN)) ks) [0..<length ls]"
    by (simp add: to_dict_records_def comp_def)
  also have "\<dots> = map (\<lambda>l. map (\<lambda>k. (k, dict_get l k PyNaN)) ks) ls"
    by (rule map_nth_upt)
  also have "\<dots> = ls"
  proof -
    have "map (\<lambda>k. (k, dict_get l k PyNaN)) ks = l" if "l \<in> set ls" for l
      using that assms dict_get_row [of l PyNaN] by auto
    then show ?thesis by (simp add: map_idI)
  qed
  finally show ?thesis .
qed

lemma dict_get_present:
  assumes "k \<in> set (map fst l)" and "PyNaN \<notin> snd ` set l"
  shows "dict_get l k d \<noteq> PyNaN"
proof -
  from assms(1) obtain v where v: "map_of l k = Some v"
    by (cases "map_of l k") (auto simp add: map_of_eq_None_iff)
  then have "(k, v) \<in> set l" by (rule map_of_SomeD)
  with assms(2) have "v \<noteq> PyNaN" by force
  with v show ?thesis by (simp add: dict_get_def)
qed

lemma fillna_cells_id: "PyNaN \<notin> set xs \<Longrightarrow> fillna_cells v xs = xs"
  by (induction xs) (auto simp add: fillna_cells_def)

lemma records_frame_roundtrip:
  assumes "ls \<noteq> []" and "\<forall>l\<in>set ls. map fst l = ks" and "distinct ks"
    and "\<forall>l\<in>set ls. PyNaN \<notin> snd ` set l"
  shows "to_dict_records (fillna v (DataFrame ls)) = ls"
proof -
  let ?col = "\<lambda>k. map (\<lambda>l. dict_get l k PyNaN) ls"
  have cols: "columns (DataFrame ls) = map (\<lambda>k. (k, ?col k)) ks"
    using assms(1-3) by (rule columns_DataFrame_uniform)
  have keep: "fillna_cells v (?col k) = ?col k" if k: "k \<in> set ks" for k
  proof (rule fillna_cells_id)
    show "PyNaN \<notin> set (?col k)"
    proof
      assume "PyNaN \<in> set (?col k)"
      then obtain l where l: "l \<in> set ls" and eq: "dict_get l k PyNaN = PyNaN"
        by (auto simp add: eq_commute)
      from l assms(2) have "map fst l = ks" by blast
      with k have "k \<in> set (map fst l)" by simp
      moreover from l assms(4) have "PyNaN \<notin> snd ` set l" by blast
      ultimately have "dict_get l k PyNaN \<noteq> PyNaN" by (rule dict_get_present)
      with eq show False by simp
    qed
  qed
  have "map (\<lambda>(k, xs). (k, fillna_cells v xs)) (map (\<lambda>k. (k, ?col k)) ks) =
        map (\<lambda>k. (k, fillna_cells v (?col k))) ks"
    by (simp add: comp_def)
  also have "\<dots> = map (\<lambda>k. (k, ?col k)) ks"
    by (rule map_cong) (simp_all add: keep)
  finally have filled:
    "map (\<lambda>(k, xs). (k, fillna_cells v xs)) (map (\<lambda>k. (k, ?col k)) ks) =
     map (\<lambda>k. (k, ?col k)) ks" .
  have "columns (fillna v (DataFrame ls)) = map (\<lambda>k. (k, ?col k)) ks"
    unfolding fillna_def cols filled by simp
  moreover have "nrows (fillna v (DataFrame ls)) = length ls"
    by (simp add: fillna_def DataFrame_def)
  ultimately have "fillna v (DataFrame ls) =
      \<lparr>columns = map (\<lambda>k. (k, ?col k)) ks, nrows = length ls\<rparr>"
    by simp
  then show ?thesis
    by (simp only: to_dict_records_columns [OF assms(2,3)])
qed

section \<open>Loading from the worksheet\<close>

lemma numericise_not_NaN: "numericise c \<noteq> PyNaN"
  by (simp add: numericise_def split: option.splits)

lemma load_from_gsheet_rows:
  assumes "faults w = [] \<or> (\<exists>fs. faults w = False # fs)"
    and "sheet w = hdr # rows" and "distinct hdr"
    and "\<forall>r\<in>set rows. length r = length hdr"
  shows "fst (load_from_gsheet w) = map (\<lambda>r. zip hdr (map numericise r)) rows"
proof (cases "rows = []")
  case True
  with assms show ?thesis
    by (auto simp add: load_from_gsheet_def get_all_records_def api_call_def)
next
  case False
  let ?recs = "map (\<lambda>r. zip hdr (map numericise r)) rows"
  have ne: "?recs \<noteq> []" using False by simp
  have keys: "\<forall>l\<in>set ?recs. map fst l = hdr"
    using assms(4) by auto
  have vals: "\<forall>l\<in>set ?recs. PyNaN \<notin> snd ` set l"
  proof
    fix l assume "l \<in> set ?recs"
    then obtain r where "l = zip hdr (map numericise r)" by auto
    then have sub: "snd ` set l \<subseteq> set (map numericise r)"
      by (auto dest: set_zip_rightD)
    show "PyNaN \<notin> snd ` set l"
    proof
      assume "PyNaN \<in> snd ` set l"
      with sub have "PyNaN \<in> set (map numericise r)" by blast
      then obtain c where "numericise c = PyNaN" by (auto simp add: eq_commute)
      with numericise_not_NaN show False by simp
    qed
  qed
  have "to_dict_records (fillna (PyStr []) (DataFrame ?recs)) = ?recs"
    using ne keys assms(3) vals by (rule records_frame_roundtrip)
  with assms(1-3) False show ?thesis
    by (auto simp add: load_from_gsheet_def get_all_records_def api_call_def)
qed

section \<open>Positions in the worksheet and the reload\<close>

lemma load_from_gsheet_depends:
  "sheet w' = sheet w \<Longrightarrow> faults w' = faults w \<Longrightarrow>
   fst (load_from_gsheet w') = fst (load_from_gsheet w) \<and>
   faults (snd (load_from_gsheet w')) = faults (snd (load_from_gsheet w))"
  by (simp add: load_from_gsheet_def get_all_records_def api_call_def Let_def
      split: list.splits)

lemma load_from_gsheet_logs_update:
  "fst (load_from_gsheet (w\<lparr>logs := ls\<rparr>)) = fst (load_from_gsheet w)"
  by (rule load_from_gsheet_depends [THEN conjunct1]) simp_all

lemma load_from_gsheet_faults:
  "faults (snd (load_from_gsheet w)) = tl (faults w)"
  by (simp add: load_from_gsheet_def get_all_records_def api_call_def Let_def
      split: list.splits)

lemma delete_from_gsheet_True_sheet:
  "fst (delete_from_gsheet i w) \<Longrightarrow>
   sheet (snd (delete_from_gsheet i w)) = take (Suc i) (sheet w) @ drop (i + 2) (sheet w)"
  by (auto simp add: delete_from_gsheet_def delete_rows_def api_call_def split: list.splits)

text \<open>
  Claim C7. On a worksheet with its header in row 1, a remote delete for the data-row
  position \<open>i\<close> that goes through removes sheet row \<open>i + 2\<close>, that is data row
  \<open>i\<close> counted from 0, and nothing else. With distinct header names and rows as wide
  as the header, the record the loader builds at position \<open>i\<close> is the one of that row,
  and loading after the delete gives the former load without its position \<open>i\<close>.
\<close>

theorem C7_remote_delete_addresses_record_i:
  assumes "fst (delete_from_gsheet i w)" and "sheet w = hdr # rows" and "i < length rows"
  shows "sheet (snd (delete_from_gsheet i w)) = hdr # take i rows @ drop (Suc i) rows \<and>
    (distinct hdr \<and> (\<forall>r\<in>set rows. length r = length hdr) \<longrightarrow>
       fst (load_from_gsheet (w\<lparr>faults := []\<rparr>)) ! i = zip hdr (map numericise (rows ! i)) \<and>
       fst (load_from_gsheet ((snd (delete_from_gsheet i w))\<lparr>faults := []\<rparr>)) =
         take i (fst (load_from_gsheet (w\<lparr>faults := []\<rparr>))) @
         drop (Suc i) (fst (load_from_gsheet (w\<lparr>faults := []\<rparr>))))"
proof -
  let ?w' = "snd (delete_from_gsheet i w)"
  have sh: "sheet ?w' = hdr # take i rows @ drop (Suc i) rows"
    using delete_from_gsheet_True_sheet [OF assms(1)] assms(2) by simp
  have "fst (load_from_gsheet (w\<lparr>faults := []\<rparr>)) ! i = zip hdr (map numericise (rows ! i)) \<and>
       fst (load_from_gsheet (?w'\<lparr>faults := []\<rparr>)) =
         take i (fst (load_from_gsheet (w\<lparr>faults := []\<rparr>))) @
         drop (Suc i) (fst (load_from_gsheet (w\<lparr>faults := []\<rparr>)))"
    if d: "distinct hdr" and r: "\<forall>r\<in>set rows. length r = length hdr"
  proof -
    have before: "fst (load_from_gsheet (w\<lparr>faults := []\<rparr>)) =
        map (\<lambda>r. zip hdr (map numericise r)) rows"
      using assms(2) d r by (intro load_from_gsheet_rows) simp_all
    have r': "\<forall>r\<in>set (take i rows @ drop (Suc i) rows). length r = length hdr"
      using r by (auto dest: in_set_takeD in_set_dropD)
    have after: "fst (load_from_gsheet (?w'\<lparr>faults := []\<rparr>)) =
        map (\<lambda>r. zip hdr (map numericise r)) (take i rows @ drop (Suc i) rows)"
      using sh d r' by (intro load_from_gsheet_rows) simp_all
    show ?thesis
      using assms(3) by (simp add: before after take_map drop_map)
  qed
  with sh show ?thesis by blast
qed

text \<open>Deleting position 0 from the sample worksheet of two data rows.\<close>

theorem C7_remote_delete_addresses_record_i_witness:
  "fst (delete_from_gsheet 0 sample_photo_world) \<and>
   sheet (snd (delete_from_gsheet 0 sample_photo_world)) =
     [headers,
      [zakimi_castle, ''20'', ''-10'', ''30'', ''40'', ''quiet'', [], ''2024-01-01 10:00:00'']] \<and>
   fst (load_from_gsheet ((snd (delete_from_gsheet 0 sample_photo_world))\<lparr>faults := []\<rparr>)) =
     drop (Suc 0) (fst (load_from_gsheet (sample_photo_world\<lparr>faults := []\<rparr>)))"
proof -
  let ?rows = "[[zakimi_castle, ''20'', ''-10'', ''30'', ''40'', ''quiet'',
          ''photos/20240101_100000.jpg'', ''2024-01-01 10:00:00''],
         [zakimi_castle, ''20'', ''-10'', ''30'', ''40'', ''quiet'', [],
          ''2024-01-01 10:00:00'']]"
  have ok: "fst (delete_from_gsheet 0 sample_photo_world)"
    by (simp add: delete_from_gsheet_def delete_rows_def api_call_def sample_photo_world_def)
  have sh: "sheet sample_photo_world = headers # ?rows"
    by (simp add: sample_photo_world_def)
  have i: "0 < length ?rows" by simp
  have d: "distinct headers" by (simp add: headers_def)
  have r: "\<forall>r\<in>set ?rows. length r = length headers" by (simp add: headers_def)
  note inst = C7_remote_delete_addresses_record_i [OF ok sh i]
  from inst have 1: "sheet (snd (delete_from_gsheet 0 sample_photo_world)) =
     [headers,
      [zakimi_castle, ''20'', ''-10'', ''30'', ''40'', ''quiet'', [], ''2024-01-01 10:00:00'']]"
    by simp
  from inst d r have 2:
    "fst (load_from_gsheet ((snd (delete_from_gsheet 0 sample_photo_world))\<lparr>faults := []\<rparr>)) =
     take 0 (fst (load_from_gsheet (sample_photo_world\<lparr>faults := []\<rparr>))) @
     drop (Suc 0) (fst (load_from_gsheet (sample_photo_world\<lparr>faults := []\<rparr>)))"
    by blast
  from 2 have 3:
    "fst (load_from_gsheet ((snd (delete_from_gsheet 0 sample_photo_world))\<lparr>faults := []\<rparr>)) =
     drop (Suc 0) (fst (load_from_gsheet (sample_photo_world\<lparr>faults := []\<rparr>)))"
    by (simp only: take_0 append_Nil)
  from ok 1 3 show ?thesis by blast
qed

text \<open>
  Claim C9. With the sheet connected, the top of every script run ends with the store
  equal to what the reload returned (on the first run of a session the initial load is
  made first and then replaced by the reload): the empty list when the reload's call
  raises, the records of the data rows when the sheet is reachable. The result does not
  depend on the store before the run: two worlds with the same worksheet and the same
  outcomes of the calls get the same store, so a record appended in memory is there in
  the next run only if it is in the worksheet.
\<close>

theorem C9_store_reloaded_every_run:
  "\<exists>w'. script_top True fresh w = Inr w' \<and>
     logs w' = fst (load_from_gsheet (if fresh then snd (load_from_gsheet w) else w)) \<and>
     (\<forall>fs. faults (if fresh then snd (load_from_gsheet w) else w) = True # fs \<longrightarrow> logs w' = []) \<and>
     (\<forall>hdr rows. faults w = [] \<and> sheet w = hdr # rows \<and> distinct hdr \<and>
        (\<forall>r\<in>set rows. length r = length hdr) \<longrightarrow>
        logs w' = map (\<lambda>r. zip hdr (map numericise r)) rows) \<and>
     (\<forall>v::world. sheet v = sheet w \<and> faults v = faults w \<longrightarrow>
        (\<exists>v'. script_top True fresh v = Inr v' \<and> logs v' = logs w'))"
proof -
  let ?pre = "\<lambda>w. if fresh then snd (load_from_gsheet w) else w"
  have top: "\<exists>u'. script_top True fresh u = Inr u' \<and> logs u' = fst (load_from_gsheet (?pre u))"
    for u
    by (simp add: script_top_def hydrate_def refresh_def Let_def case_prod_beta
        load_from_gsheet_logs_update)
  obtain w' where w': "script_top True fresh w = Inr w'"
    "logs w' = fst (load_from_gsheet (?pre w))"
    using top [of w] by blast
  have fail: "\<forall>fs. faults (?pre w) = True # fs \<longrightarrow> logs w' = []"
  proof (intro allI impI)
    fix fs assume "faults (?pre w) = True # fs"
    then have "load_from_gsheet (?pre w) = ([], (?pre w)\<lparr>faults := fs\<rparr>)"
      by (rule load_from_gsheet_fails)
    with w'(2) show "logs w' = []" by (simp only: fst_conv)
  qed
  have rows: "\<forall>hdr rows. faults w = [] \<and> sheet w = hdr # rows \<and> distinct hdr \<and>
        (\<forall>r\<in>set rows. length r = length hdr) \<longrightarrow>
        logs w' = map (\<lambda>r. zip hdr (map numericise r)) rows"
  proof (intro allI impI)
    fix hdr rows
    assume a: "faults w = [] \<and> sheet w = hdr # rows \<and> distinct hdr \<and>
        (\<forall>r\<in>set rows. length r = length hdr)"
    then have "faults (?pre w) = []" "sheet (?pre w) = hdr # rows"
      by (simp_all add: load_from_gsheet_faults load_from_gsheet_local)
    with a have "fst (load_from_gsheet (?pre w)) = map (\<lambda>r. zip hdr (map numericise r)) rows"
      by (intro load_from_gsheet_rows) simp_all
    with w'(2) show "logs w' = map (\<lambda>r. zip hdr (map numericise r)) rows" by simp
  qed
  have indep: "\<forall>v::world. sheet v = sheet w \<and> faults v = faults w \<longrightarrow>
        (\<exists>v'. script_top True fresh v = Inr v' \<and> logs v' = logs w')"
  proof (intro allI impI)
    fix v :: world assume a: "sheet v = sheet w \<and> faults v = faults w"
    then have "sheet (?pre v) = sheet (?pre w)" "faults (?pre v) = faults (?pre w)"
      by (simp_all add: load_from_gsheet_faults load_from_gsheet_local)
    then have same: "fst (load_from_gsheet (?pre v)) = fst (load_from_gsheet (?pre w))"
      by (rule load_from_gsheet_depends [THEN conjunct1])
    obtain v' where v': "script_top True fresh v = Inr v'"
      "logs v' = fst (load_from_gsheet (?pre v))"
      using top [of v] by blast
    from v'(2) same w'(2) have "logs v' = logs w'" by (simp only:)
    with v'(1) show "\<exists>v'. script_top True fresh v = Inr v' \<and> logs v' = logs w'"
      by (intro exI [of _ v'] conjI)
  qed
  show ?thesis
    by (rule exI [of _ w']) (intro conjI w' fail rows indep)
qed

text \<open>
  A store holding a record that never reached an unreachable sheet is empty after the
  next run; with the sheet reachable the store has the two records of the worksheet.
\<close>

theorem C9_store_reloaded_every_run_witness:
  "(\<exists>w'. script_top True False
           (sample_photo_world\<lparr>logs := [new_log sample_form []], faults := [True]\<rparr>) = Inr w' \<and>
         logs w' = []) \<and>
   (\<exists>w'. script_top True False (sample_photo_world\<lparr>logs := []\<rparr>) = Inr w' \<and>
         length (logs w') = 2)"
proof -
  let ?down = "sample_photo_world\<lparr>logs := [new_log sample_form []], faults := [True]\<rparr>"
  let ?up = "sample_photo_world\<lparr>logs := []\<rparr>"
  let ?rows = "[[zakimi_castle, ''20'', ''-10'', ''30'', ''40'', ''quiet'',
          ''photos/20240101_100000.jpg'', ''2024-01-01 10:00:00''],
         [zakimi_castle, ''20'', ''-10'', ''30'', ''40'', ''quiet'', [],
          ''2024-01-01 10:00:00'']]"
  obtain d' where d': "script_top True False ?down = Inr d'"
    "\<forall>fs. faults (if False then snd (load_from_gsheet ?down) else ?down) = True # fs \<longrightarrow>
       logs d' = []"
    using C9_store_reloaded_every_run [of False ?down] by blast
  have "faults (if False then snd (load_from_gsheet ?down) else ?down) = True # []"
    by simp
  with d'(2) have "logs d' = []" by blast
  with d'(1) have down: "\<exists>w'. script_top True False ?down = Inr w' \<and> logs w' = []"
    by blast
  obtain u' where u': "script_top True False ?up = Inr u'"
    "\<forall>hdr rows. faults ?up = [] \<and> sheet ?up = hdr # rows \<and> distinct hdr \<and>
        (\<forall>r\<in>set rows. length r = length hdr) \<longrightarrow>
        logs u' = map (\<lambda>r. zip hdr (map numericise r)) rows"
    using C9_store_reloaded_every_run [of False ?up] by blast
  have "faults ?up = [] \<and> sheet ?up = headers # ?rows \<and> distinct headers \<and>
        (\<forall>r\<in>set ?rows. length r = length headers)"
    by (simp add: sample_photo_world_def headers_def)
  with u'(2) have "logs u' = map (\<lambda>r. zip headers (map numericise r)) ?rows"
    by blast
  then have "length (logs u') = 2" by simp
  with u'(1) have up: "\<exists>w'. script_top True False ?up = Inr w' \<and> length (logs w') = 2"
    by blast
  from down up show ?thesis by (rule conjI)
qed

section \<open>Writing the backup file and reading it back\<close>








section \<open>Submitting a record\<close>









section \<open>The header row\<close>

text \<open>
  Claim C8 says that an append to a worksheet in any state leaves the new data row
  preceded by a header row. On the empty worksheet the call that reads the values returns
  one empty row, so \<^verbatim>\<open>not existing\<close> is false and no header is written: the append goes
  through and the worksheet holds the data row alone. The loader then takes that row for
  the header and returns no record.
\<close>

theorem C8_first_append_writes_no_header:
  "sheet sample_world = [] \<and>
   fst (save_to_gsheet (new_log sample_form []) sample_world) \<and>
   sheet (snd (save_to_gsheet (new_log sample_form []) sample_world)) =
     [[zakimi_castle, ''20'', ''-10'', ''30'', ''40'', ''quiet'', [], ''2024-01-01 10:00:00'']] \<and>
   headers \<notin> set (sheet (snd (save_to_gsheet (new_log sample_form []) sample_world))) \<and>
   fst (load_from_gsheet (snd (save_to_gsheet (new_log sample_form []) sample_world))) = []"
  by code_simp

section \<open>The backup file round trip\<close>











end
